theory Spec2Isabelle
  imports Main
begin

section \<open>JavaScript values\<close>

text \<open>
  The values that flow through \<^verbatim>\<open>accounts-tequila-server.js\<close>: the Tequila attribute set,
  the ticket (\<^verbatim>\<open>key\<close>), whatever the caller's \<^verbatim>\<open>getUserId\<close> hands back. The source is
  duck-typed, so all of them live in one type.  A plain object is its list of data
  properties.  \<open>JCursor\<close> is an object whose \<^verbatim>\<open>forEach\<close> property is a function: the list
  holds, in order, the argument pairs that \<^verbatim>\<open>forEach\<close> passes to its callback (the callback
  of line 140 names them \<^verbatim>\<open>error\<close> and \<^verbatim>\<open>value\<close>), and \<^verbatim>\<open>forEach\<close> runs the callback on them
  synchronously, as Meteor's server-side cursors and arrays do.  Numbers are restricted to
  integers; only their truthiness is ever looked at.
\<close>

datatype jsval =
    Undefined
  | Null
  | JBool bool
  | JNum int
  | JStr string
  | JObj "(string \<times> jsval) list"
  | JCursor "(jsval \<times> jsval) list"

text \<open>JavaScript's \<^verbatim>\<open>ToBoolean\<close>, as used by \<^verbatim>\<open>if (x)\<close>, \<^verbatim>\<open>! x\<close> and \<^verbatim>\<open>x && y\<close>.\<close>

fun truthy :: "jsval \<Rightarrow> bool" where
  "truthy Undefined = False"
| "truthy Null = False"
| "truthy (JBool b) = b"
| "truthy (JNum n) = (n \<noteq> 0)"
| "truthy (JStr s) = (s \<noteq> [])"
| "truthy (JObj kvs) = True"
| "truthy (JCursor ys) = True"

text \<open>
  Reading a data property \<^verbatim>\<open>v.k\<close> of a value that is neither \<^verbatim>\<open>undefined\<close> nor \<^verbatim>\<open>null\<close>
  (every read in the source is guarded by a truthiness test of \<^verbatim>\<open>v\<close>): a missing property
  reads as \<^verbatim>\<open>undefined\<close>, and so does any property of a primitive that the source asks for
  (\<^verbatim>\<open>key\<close>, \<^verbatim>\<open>whitelisted\<close>, \<^verbatim>\<open>forEach\<close>, \<^verbatim>\<open>_id\<close>, \<^verbatim>\<open>name\<close>).
\<close>

fun jsprop :: "jsval \<Rightarrow> string \<Rightarrow> jsval" where
  "jsprop (JObj kvs) k = (case map_of kvs k of Some v \<Rightarrow> v | None \<Rightarrow> Undefined)"
| "jsprop v k = Undefined"

text \<open>\<^verbatim>\<open>a && b\<close>.\<close>

definition js_and :: "jsval \<Rightarrow> jsval \<Rightarrow> jsval" where
  "js_and a b = (if truthy a then b else a)"

text \<open>
  Error objects are objects.  \<^verbatim>\<open>new Meteor.Error(code)\<close> carries its code in the \<^verbatim>\<open>error\<close>
  property; \<^verbatim>\<open>_.extend(obj, src)\<close> assigns every property of a plain object \<^verbatim>\<open>src\<close> to
  \<^verbatim>\<open>obj\<close>, in order: a property that \<^verbatim>\<open>obj\<close> has is overwritten in place, a new one is
  added at the end.
\<close>

definition ReferenceError :: "string \<Rightarrow> jsval" where
  "ReferenceError name =
     JObj [(''name'', JStr ''ReferenceError''), (''message'', JStr (name @ '' is not defined''))]"

definition TypeError :: "string \<Rightarrow> jsval" where
  "TypeError what =
     JObj [(''name'', JStr ''TypeError''), (''message'', JStr what)]"

definition MeteorError :: "string \<Rightarrow> jsval" where
  "MeteorError code = JObj [(''errorType'', JStr ''Meteor.Error''), (''error'', JStr code)]"

fun set_prop :: "string \<Rightarrow> jsval \<Rightarrow> (string \<times> jsval) list \<Rightarrow> (string \<times> jsval) list" where
  "set_prop k v [] = [(k, v)]"
| "set_prop k v ((k', v') # kvs) =
     (if k' = k then (k, v) # kvs else (k', v') # set_prop k v kvs)"

fun extend :: "jsval \<Rightarrow> jsval \<Rightarrow> jsval" where
  "extend (JObj kvs) (JObj src) = JObj (foldl (\<lambda>acc kv. set_prop (fst kv) (snd kv) acc) kvs src)"
| "extend obj src = obj"

text \<open>The helper of lines 191 to 195.  Nothing in the file calls it.\<close>

definition TequilaUnknownUserError :: "jsval \<Rightarrow> jsval" where
  "TequilaUnknownUserError tequilaResults =
     extend (MeteorError ''TEQUILA_USER_UNKNOWN'') tequilaResults"

text \<open>How a statement or call completes: with a value, or by throwing one.\<close>

datatype 'a completion = Returns 'a | Throws jsval


section \<open>The collaborators\<close>

text \<open>
  An HTTP request as the control handlers see it: \<^verbatim>\<open>connect-query\<close> runs first
  (line 85) and has left the parsed query string in \<^verbatim>\<open>req.query\<close>; \<open>pathname\<close> is the path
  that \<^verbatim>\<open>connect\<close> matches its routes against; \<^verbatim>\<open>req.tequila\<close> is the property that the
  bypass handlers write.
\<close>

record request =
  originalUrl :: string
  pathname :: string
  query :: jsval
  tequila :: jsval

text \<open>
  The remote calls and the redirect, in the order they are made.  They are the observable
  effects of this package besides its results.
\<close>

datatype rpc =
    CreateRequest request
  | RequestAuth jsval
  | FetchAttributes jsval

text \<open>
  \<^verbatim>\<open>passport-tequila\<close>'s \<^verbatim>\<open>Protocol\<close> object, after \<^verbatim>\<open>_.extend(protocol, options)\<close>: what its
  two callback-style calls pass to their callback, \<open>Inl err\<close> for \<^verbatim>\<open>cb(err)\<close> with a truthy
  \<^verbatim>\<open>err\<close> and \<open>Inr results\<close> for \<^verbatim>\<open>cb(null, results)\<close>.  Each call answers through its
  callback, once; the answers are the Tequila server's.
\<close>

record protocol =
  createrequest :: "request \<Rightarrow> jsval + jsval"
  fetchattributes :: "jsval \<Rightarrow> jsval + jsval"

text \<open>
  What a call of \<^verbatim>\<open>getUserId\<close> does: return a value that is not a promise, throw, or return
  a promise that is later fulfilled or rejected.
\<close>

datatype resolver_result =
    Returned jsval
  | Threw jsval
  | Fulfilled jsval
  | Rejected jsval

text \<open>\<^verbatim>\<open>await e\<close>, where evaluating \<^verbatim>\<open>e\<close> did the above.\<close>

fun await :: "resolver_result \<Rightarrow> jsval completion" where
  "await (Returned v) = Returns v"
| "await (Threw e) = Throws e"
| "await (Fulfilled v) = Returns v"
| "await (Rejected e) = Throws e"

text \<open>The \<^verbatim>\<open>options\<close> object of \<^verbatim>\<open>start\<close>, as far as this file reads it.\<close>

record options =
  client :: string
  getUserId :: "jsval \<Rightarrow> resolver_result"
  bypass :: "string list"
  control :: "string list"

text \<open>What the caller passes to \<^verbatim>\<open>start\<close>: any of the keys may be missing.\<close>

record opts =
  opts_client :: "string option"
  opts_getUserId :: "(jsval \<Rightarrow> resolver_result) option"
  opts_bypass :: "string list option"
  opts_control :: "string list option"

text \<open>
  Lines 71 to 77, \<^verbatim>\<open>_.extend({defaults}, opts)\<close>.  The default \<^verbatim>\<open>getUserId\<close> reads
  \<^verbatim>\<open>tequilaResponse.name\<close>, a \<^verbatim>\<open>TypeError\<close> when the response is \<^verbatim>\<open>undefined\<close> or \<^verbatim>\<open>null\<close>, and
  asks the user collection for the document with that username; \<open>findOne v\<close> stands for
  \<^verbatim>\<open>Meteor.users.findOne({username: v})\<close>, the document or \<^verbatim>\<open>undefined\<close>.
\<close>

definition default_getUserId :: "(jsval \<Rightarrow> jsval) \<Rightarrow> jsval \<Rightarrow> resolver_result" where
  "default_getUserId findOne tequilaResponse =
     (if tequilaResponse = Undefined \<or> tequilaResponse = Null
      then Threw (TypeError ''Cannot read property name'')
      else Returned (findOne (jsprop tequilaResponse ''name'')))"

definition start_options :: "(jsval \<Rightarrow> jsval) \<Rightarrow> opts \<Rightarrow> options" where
  "start_options findOne os =
     \<lparr> client = (case opts_client os of Some c \<Rightarrow> c | None \<Rightarrow> ''meteor-accounts-tequila''),
       getUserId = (case opts_getUserId os of Some f \<Rightarrow> f | None \<Rightarrow> default_getUserId findOne),
       bypass = (case opts_bypass os of Some b \<Rightarrow> b
                 | None \<Rightarrow> [''/merged-stylesheets.css'', ''/packages/'', ''/lib/'',
                            ''/node_modules/'', ''/tap-i18n/'',
                            ''/error-stack-parser.min.js.map'', ''/favicon.ico'']),
       control = (case opts_control os of Some c \<Rightarrow> c | None \<Rightarrow> [''/'']) \<rparr>"


section \<open>The HTTP side\<close>

text \<open>What one handler does with the request: call \<^verbatim>\<open>next()\<close>, call \<^verbatim>\<open>next(err)\<close>, or
  answer it with Tequila's redirect.\<close>

datatype http_action = Next | NextErr jsval | Redirect jsval

text \<open>The test of line 19, \<^verbatim>\<open>req.query && req.query.key\<close>: an empty \<^verbatim>\<open>key\<close> is no key.\<close>

definition req_has_key :: "request \<Rightarrow> bool" where
  "req_has_key req = truthy (js_and (query req) (jsprop (query req) ''key''))"

text \<open>The test of line 94, \<^verbatim>\<open>req.tequila && req.tequila.whitelisted\<close>.\<close>

definition req_whitelisted :: "request \<Rightarrow> bool" where
  "req_whitelisted req = truthy (js_and (tequila req) (jsprop (tequila req) ''whitelisted''))"

text \<open>Lines 18 to 39.\<close>

definition tequilaRedirectHTTP :: "protocol \<Rightarrow> request \<Rightarrow> rpc list \<times> http_action" where
  "tequilaRedirectHTTP protocol req =
     (if req_has_key req
      then ([], Next)
      else (case createrequest protocol req of
              Inl err \<Rightarrow> ([CreateRequest req], NextErr err)
            | Inr results \<Rightarrow> ([CreateRequest req, RequestAuth results], Redirect results)))"

text \<open>The two closures that \<^verbatim>\<open>start\<close> registers, each under a route (lines 86 to 100).\<close>

datatype handler = BypassHandler | ControlHandler

definition layers :: "options \<Rightarrow> (string \<times> handler) list" where
  "layers options =
     map (\<lambda>url. (url, BypassHandler)) (bypass options) @
     map (\<lambda>url. (url, ControlHandler)) (control options)"

definition whitelisted_ctx :: jsval where
  "whitelisted_ctx = JObj [(''whitelisted'', JBool True)]"

text \<open>
  How the request leaves the \<^verbatim>\<open>connect\<close> app: handed on to the handlers registered after
  it, with the request as it then is, with or without an error, or answered by the
  redirect.
\<close>

datatype http_outcome =
    Downstream request
  | DownstreamError jsval request
  | Redirected jsval

text \<open>
  \<^verbatim>\<open>connect\<close>'s dispatch over the layers in the order of their \<^verbatim>\<open>use\<close>: a layer whose route
  does not match the path is skipped; \<^verbatim>\<open>next()\<close> goes on to the next layer; after
  \<^verbatim>\<open>next(err)\<close> every remaining layer is skipped, none of them being an error handler; a
  handler that calls neither ends the dispatch.  \<open>matches route path\<close> is \<^verbatim>\<open>connect\<close>'s
  route test and a parameter here.
\<close>

fun dispatch ::
  "(string \<Rightarrow> string \<Rightarrow> bool) \<Rightarrow> protocol \<Rightarrow> (string \<times> handler) list \<Rightarrow> request
     \<Rightarrow> rpc list \<times> http_outcome" where
  "dispatch matches protocol [] req = ([], Downstream req)"
| "dispatch matches protocol ((route, h) # rest) req =
     (if matches route (pathname req) then
        (case h of
           BypassHandler \<Rightarrow>
             dispatch matches protocol rest (req\<lparr>tequila := whitelisted_ctx\<rparr>)
         | ControlHandler \<Rightarrow>
             if req_whitelisted req
             then dispatch matches protocol rest req
             else (case tequilaRedirectHTTP protocol req of
                     (calls, Next) \<Rightarrow>
                       (case dispatch matches protocol rest req of
                          (calls', out) \<Rightarrow> (calls @ calls', out))
                   | (calls, NextErr err) \<Rightarrow> (calls, DownstreamError err req)
                   | (calls, Redirect results) \<Rightarrow> (calls, Redirected results)))
      else dispatch matches protocol rest req)"


section \<open>The login side\<close>

text \<open>
  Two identifiers of the login path are bound by no enclosing scope of the module.
  \<^verbatim>\<open>results\<close> (lines 117 and 119) is declared by the \<^verbatim>\<open>const\<close> of line 111, whose scope is the
  first \<^verbatim>\<open>try\<close> block and ends at line 112.  \<^verbatim>\<open>options\<close> (line 133) sits in
  \<^verbatim>\<open>getIdFromResults\<close>, a function of the module's top level, while the \<^verbatim>\<open>let options\<close> of
  line 71 and the handler's parameter of line 103 are local to \<^verbatim>\<open>start\<close> and to the
  handler.  Both are therefore looked up in the global object, and an identifier that
  is not found there throws a \<^verbatim>\<open>ReferenceError\<close>.  The record says what the global object
  holds under the two names, \<open>None\<close> when it has no such property, as under Meteor and
  Node.
\<close>

record global_scope =
  global_results :: "jsval option"
  global_options :: "options option"

text \<open>The callback of lines 140 to 146.\<close>

definition forEach_callback :: "jsval \<Rightarrow> jsval \<Rightarrow> jsval completion" where
  "forEach_callback error val = (if truthy error then Throws error else Returns val)"

text \<open>\<^verbatim>\<open>forEach\<close> of a cursor: the callback's return value is dropped, its exception ends
  the iteration and propagates.\<close>

fun forEach :: "(jsval \<times> jsval) list \<Rightarrow> unit completion" where
  "forEach [] = Returns ()"
| "forEach ((error, val) # rest) =
     (case forEach_callback error val of
        Throws e \<Rightarrow> Throws e
      | Returns v \<Rightarrow> forEach rest)"

text \<open>
  Lines 135 to 151, the body of the inner \<^verbatim>\<open>async\<close> function once \<^verbatim>\<open>loggedInUser\<close> is there.
  The cursor branch has no \<^verbatim>\<open>return\<close> of its own, so the function falls off its end.
\<close>

definition idOfLoggedInUser :: "jsval \<Rightarrow> jsval completion" where
  "idOfLoggedInUser loggedInUser =
     (if \<not> truthy loggedInUser then Returns Undefined
      else (case loggedInUser of
              JCursor ys \<Rightarrow>
                (case forEach ys of Throws e \<Rightarrow> Throws e | Returns u \<Rightarrow> Returns Undefined)
            | _ \<Rightarrow>
                if truthy (jsprop loggedInUser ''forEach'')
                then Throws (TypeError ''loggedInUser.forEach is not a function'')
                else if truthy (jsprop loggedInUser ''_id'')
                then Returns (jsprop loggedInUser ''_id'')
                else Returns loggedInUser))"

text \<open>
  Lines 130 to 153: what awaiting \<^verbatim>\<open>getIdFromResults(results)\<close> gives.  The inner function's
  promise settles the outer one through \<^verbatim>\<open>.then(resolve).catch(reject)\<close>.
\<close>

definition getIdFromResults :: "global_scope \<Rightarrow> jsval \<Rightarrow> jsval completion" where
  "getIdFromResults G results =
     (case global_options G of
        None \<Rightarrow> Throws (ReferenceError ''options'')
      | Some options \<Rightarrow>
          (case await (getUserId options results) of
             Throws e \<Rightarrow> Throws e
           | Returns loggedInUser \<Rightarrow> idOfLoggedInUser loggedInUser))"

text \<open>What a login handler hands back to \<^verbatim>\<open>Accounts\<close>: \<^verbatim>\<open>undefined\<close>, \<^verbatim>\<open>{userId}\<close> or \<^verbatim>\<open>{error}\<close>.\<close>

datatype login_result = Declined | LoginUserId jsval | LoginError jsval

text \<open>The argument of the login method.\<close>

record login_options =
  tequilaKey :: jsval

text \<open>Line 117, \<^verbatim>\<open>await getIdFromResults(results)\<close>: the argument is evaluated first.\<close>

definition awaitUserId :: "global_scope \<Rightarrow> jsval completion" where
  "awaitUserId G =
     (case global_results G of
        None \<Rightarrow> Throws (ReferenceError ''results'')
      | Some results \<Rightarrow> getIdFromResults G results)"

text \<open>
  Lines 103 to 127.  The value that \<^verbatim>\<open>fetchattributes\<close> returned is bound inside the first
  \<^verbatim>\<open>try\<close> block only and is not seen after it.
\<close>

definition loginHandler ::
  "global_scope \<Rightarrow> protocol \<Rightarrow> login_options \<Rightarrow> rpc list \<times> login_result completion" where
  "loginHandler G protocol options =
     (let key = tequilaKey options in
      if \<not> truthy key then ([], Returns Declined)
      else (case fetchattributes protocol key of
              Inl e \<Rightarrow> ([FetchAttributes key], Returns (LoginError e))
            | Inr results \<Rightarrow>
                ([FetchAttributes key],
                 (case awaitUserId G of
                    Throws e \<Rightarrow> Returns (LoginError e)
                  | Returns userId \<Rightarrow>
                      if \<not> truthy userId
                      then Returns (LoginError (MeteorError ''Tequila:user-unknown''))
                      else Returns (LoginUserId userId)))))"

text \<open>
  \<^verbatim>\<open>start\<close>: the handler it adds to \<^verbatim>\<open>WebApp.rawConnectHandlers\<close> and the login handler it
  registers.  \<open>findOne\<close> is the user collection's lookup by username and \<open>matches\<close> is
  \<^verbatim>\<open>connect\<close>'s route test.  The \<^verbatim>\<open>fakeLocalServer\<close> option is left unset.
\<close>

record registered =
  httpHandler :: "request \<Rightarrow> rpc list \<times> http_outcome"
  login :: "login_options \<Rightarrow> rpc list \<times> login_result completion"

definition start ::
  "global_scope \<Rightarrow> (string \<Rightarrow> string \<Rightarrow> bool) \<Rightarrow> (jsval \<Rightarrow> jsval) \<Rightarrow> protocol \<Rightarrow> opts
     \<Rightarrow> registered" where
  "start G matches findOne protocol os =
     (let options = start_options findOne os in
      \<lparr> httpHandler = dispatch matches protocol (layers options),
        login = loginHandler G protocol \<rparr>)"


section \<open>The classifier of the specification\<close>

datatype outcome = Whitelisted | Controlled | Unclassified

text \<open>
  The specification's \<^verbatim>\<open>classify(path, bypassPatterns, controlPatterns)\<close>, written from its
  words: a match in the bypass list first, then a match in the control list, else
  neither.  The source has no such function; its classification is the behaviour of
  \<open>dispatch\<close>.
\<close>

definition classify_spec ::
  "(string \<Rightarrow> string \<Rightarrow> bool) \<Rightarrow> string \<Rightarrow> string list \<Rightarrow> string list \<Rightarrow> outcome" where
  "classify_spec matches path bypassPatterns controlPatterns =
     (if list_ex (\<lambda>p. matches p path) bypassPatterns then Whitelisted
      else if list_ex (\<lambda>p. matches p path) controlPatterns then Controlled
      else Unclassified)"

text \<open>A route test for the worked examples: the pattern is a prefix of the path.\<close>

definition path_prefix :: "string \<Rightarrow> string \<Rightarrow> bool" where
  "path_prefix route path = (take (length route) path = route)"

section \<open>Worked inputs\<close>

text \<open>
  The scenario of the specification: bypass \<^verbatim>\<open>/assets/\<close>, control \<^verbatim>\<open>/\<close>, a user \<^verbatim>\<open>alice\<close> in the
  user collection, the ticket \<^verbatim>\<open>abc123\<close>, and a Tequila server that answers.
\<close>

definition example_attributes :: jsval where
  "example_attributes = JObj [(''name'', JStr ''alice'')]"

definition example_user :: jsval where
  "example_user = JObj [(''_id'', JStr ''u1''), (''username'', JStr ''alice'')]"

definition example_findOne :: "jsval \<Rightarrow> jsval" where
  "example_findOne username = (if username = JStr ''alice'' then example_user else Undefined)"

definition example_protocol :: protocol where
  "example_protocol =
     \<lparr> createrequest = (\<lambda>req. Inr (JObj [(''key'', JStr ''request-1'')])),
       fetchattributes = (\<lambda>key. if key = JStr ''abc123'' then Inr example_attributes
                                  else Inl (JStr ''bad ticket'')) \<rparr>"

text \<open>A Tequila server that cannot be reached.\<close>

definition unreachable_protocol :: protocol where
  "unreachable_protocol =
     \<lparr> createrequest = (\<lambda>req. Inl (JStr ''ECONNREFUSED'')),
       fetchattributes = (\<lambda>key. Inl (JStr ''ECONNREFUSED'')) \<rparr>"

text \<open>Options for \<^verbatim>\<open>start\<close> with the scenario's pattern lists and a given \<^verbatim>\<open>getUserId\<close>, if any.\<close>

definition example_opts :: "(jsval \<Rightarrow> resolver_result) option \<Rightarrow> opts" where
  "example_opts resolver =
     \<lparr> opts_client = None, opts_getUserId = resolver,
       opts_bypass = Some [''/assets/''], opts_control = Some [''/''] \<rparr>"

text \<open>The same with a control list that leaves some paths to neither list.\<close>

definition narrow_opts :: opts where
  "narrow_opts =
     \<lparr> opts_client = None, opts_getUserId = None,
       opts_bypass = Some [''/assets/''], opts_control = Some [''/app/''] \<rparr>"

definition plain_request :: "string \<Rightarrow> request" where
  "plain_request path =
     \<lparr> originalUrl = path, pathname = path, query = JObj [], tequila = Undefined \<rparr>"

definition returning_request :: "string \<Rightarrow> string \<Rightarrow> request" where
  "returning_request path key =
     \<lparr> originalUrl = path @ ''?key='' @ key, pathname = path,
       query = JObj [(''key'', JStr key)], tequila = Undefined \<rparr>"

text \<open>A \<^verbatim>\<open>getUserId\<close> that does the same whatever the attributes are.\<close>

definition constant_resolver :: "resolver_result \<Rightarrow> jsval \<Rightarrow> resolver_result" where
  "constant_resolver r tequilaResponse = r"

definition example_login :: login_options where
  "example_login = \<lparr> tequilaKey = JStr ''abc123'' \<rparr>"

text \<open>The global object of Node and Meteor: neither name is a property of it.\<close>

definition node_globals :: global_scope where
  "node_globals = \<lparr> global_results = None, global_options = None \<rparr>"

text \<open>
  A global object that does bind the two names, to the attribute set and to the options
  that \<^verbatim>\<open>start\<close> computed: the only surroundings in which lines 118 to 123 and 133 to 151
  are reached.
\<close>

definition bound_globals :: "jsval \<Rightarrow> options \<Rightarrow> global_scope" where
  "bound_globals results options =
     \<lparr> global_results = Some results, global_options = Some options \<rparr>"


section \<open>The dispatch over the registered layers\<close>


lemma tequila_update_same: "tequila req = w \<Longrightarrow> req\<lparr>tequila := w\<rparr> = req"
  by (cases req) simp

lemma dispatch_whitelisted:
  "tequila req = whitelisted_ctx \<Longrightarrow> dispatch matches protocol ls req = ([], Downstream req)"
proof (induction ls)
  case Nil
  then show ?case by simp
next
  case (Cons l ls)
  obtain route h where l: "l = (route, h)" by (cases l)
  from Cons show ?case
    by (cases h) (simp_all add: l tequila_update_same whitelisted_ctx_def js_and_def req_whitelisted_def)
qed

lemma dispatch_bypass_nomatch:
  "\<not> list_ex (\<lambda>p. matches p (pathname req)) bs \<Longrightarrow>
   dispatch matches protocol (map (\<lambda>url. (url, BypassHandler)) bs @ ls) req
     = dispatch matches protocol ls req"
  by (induction bs) simp_all

lemma dispatch_bypass_match:
  "list_ex (\<lambda>p. matches p (pathname req)) bs \<Longrightarrow>
   dispatch matches protocol (map (\<lambda>url. (url, BypassHandler)) bs @ ls) req
     = ([], Downstream (req\<lparr>tequila := whitelisted_ctx\<rparr>))"
proof (induction bs)
  case Nil
  then show ?case by simp
next
  case (Cons b bs)
  show ?case
  proof (cases "matches b (pathname req)")
    case True
    then show ?thesis by (simp add: dispatch_whitelisted)
  next
    case False
    with Cons show ?thesis by simp
  qed
qed

lemma dispatch_control_nomatch:
  "\<not> list_ex (\<lambda>p. matches p (pathname req)) cs \<Longrightarrow>
   dispatch matches protocol (map (\<lambda>url. (url, ControlHandler)) cs) req = ([], Downstream req)"
  by (induction cs) simp_all

lemma dispatch_control_key:
  "req_has_key req \<Longrightarrow>
   dispatch matches protocol (map (\<lambda>url. (url, ControlHandler)) cs) req = ([], Downstream req)"
  by (induction cs) (simp_all add: tequilaRedirectHTTP_def)

lemma dispatch_control_nokey:
  assumes "list_ex (\<lambda>p. matches p (pathname req)) cs"
    and "\<not> req_has_key req"
    and "\<not> req_whitelisted req"
  shows "dispatch matches protocol (map (\<lambda>url. (url, ControlHandler)) cs) req =
     (case createrequest protocol req of
        Inl err \<Rightarrow> ([CreateRequest req], DownstreamError err req)
      | Inr results \<Rightarrow> ([CreateRequest req, RequestAuth results], Redirected results))"
  using assms by (induction cs) (auto simp: tequilaRedirectHTTP_def split: sum.splits)

lemma dispatch_control_handed_on:
  "dispatch matches protocol (map (\<lambda>url. (url, ControlHandler)) cs) req = (calls, out) \<Longrightarrow>
   out = Downstream req \<or> (\<exists>e. out = DownstreamError e req) \<or> (\<exists>r. out = Redirected r)"
  by (induction cs arbitrary: calls out)
     (auto simp: tequilaRedirectHTTP_def split: if_splits sum.splits prod.splits)

lemma dispatch_no_fetch:
  "FetchAttributes k \<notin> set (fst (dispatch matches protocol ls req))"
proof (induction ls arbitrary: req)
  case Nil
  then show ?case by simp
next
  case (Cons l ls)
  obtain route h where l: "l = (route, h)" by (cases l)
  show ?case
    using Cons[of req] Cons[of "req\<lparr>tequila := whitelisted_ctx\<rparr>"]
    by (cases h) (auto simp: l tequilaRedirectHTTP_def split: sum.splits prod.splits)
qed



lemma httpHandler_start:
  "httpHandler (start G matches findOne protocol os)
     = dispatch matches protocol (layers (start_options findOne os))"
  by (simp add: start_def)

lemma login_start: "login (start G matches findOne protocol os) = loginHandler G protocol"
  by (simp add: start_def)

lemma dispatch_layers_bypass:
  "list_ex (\<lambda>p. matches p (pathname req)) (bypass options) \<Longrightarrow>
   dispatch matches protocol (layers options) req
     = ([], Downstream (req\<lparr>tequila := whitelisted_ctx\<rparr>))"
  by (simp add: layers_def dispatch_bypass_match)

lemma dispatch_layers_no_bypass:
  "\<not> list_ex (\<lambda>p. matches p (pathname req)) (bypass options) \<Longrightarrow>
   dispatch matches protocol (layers options) req
     = dispatch matches protocol (map (\<lambda>url. (url, ControlHandler)) (control options)) req"
  by (simp add: layers_def dispatch_bypass_nomatch)

lemma classify_spec_Controlled:
  "classify_spec matches path bs cs = Controlled \<longleftrightarrow>
     \<not> list_ex (\<lambda>p. matches p path) bs \<and> list_ex (\<lambda>p. matches p path) cs"
  by (simp add: classify_spec_def)

text \<open>The definitions that evaluating a login call on the worked inputs unfolds.\<close>

lemmas ex_defs = login_start loginHandler_def awaitUserId_def getIdFromResults_def
  idOfLoggedInUser_def forEach_callback_def bound_globals_def node_globals_def
  start_options_def example_opts_def example_login_def example_protocol_def
  constant_resolver_def example_attributes_def example_user_def example_findOne_def
  default_getUserId_def MeteorError_def ReferenceError_def TequilaUnknownUserError_def


section \<open>Bypass before control\<close>

text \<open>
  C5.  A request whose path matches at least one bypass pattern is whitelisted, whatever
  the control patterns are: the specification's classifier says \<open>Whitelisted\<close>, and the
  registered handler makes no remote call, issues no redirect and hands the request on
  with \<^verbatim>\<open>req.tequila = {whitelisted: true}\<close>.  The bypass layers are registered, and so run,
  before every control layer.
\<close>

theorem bypass_wins_over_control:
  assumes "list_ex (\<lambda>p. matches p (pathname req)) (bypass (start_options findOne os))"
  shows "classify_spec matches (pathname req)
           (bypass (start_options findOne os)) (control (start_options findOne os)) = Whitelisted
       \<and> httpHandler (start G matches findOne protocol os) req
           = ([], Downstream (req\<lparr>tequila := whitelisted_ctx\<rparr>))"
  using assms by (simp add: classify_spec_def httpHandler_start dispatch_layers_bypass)

theorem bypass_wins_over_control_witness:
  "list_ex (\<lambda>p. path_prefix p (pathname (plain_request ''/assets/app.css'')))
     (bypass (start_options example_findOne (example_opts None)))
   \<and> list_ex (\<lambda>p. path_prefix p (pathname (plain_request ''/assets/app.css'')))
     (control (start_options example_findOne (example_opts None)))
   \<and> classify_spec path_prefix (pathname (plain_request ''/assets/app.css''))
        (bypass (start_options example_findOne (example_opts None)))
        (control (start_options example_findOne (example_opts None))) = Whitelisted
   \<and> httpHandler (start node_globals path_prefix example_findOne example_protocol (example_opts None))
        (plain_request ''/assets/app.css'')
       = ([], Downstream ((plain_request ''/assets/app.css'')\<lparr>tequila := whitelisted_ctx\<rparr>))"
proof -
  have h: "list_ex (\<lambda>p. path_prefix p (pathname (plain_request ''/assets/app.css'')))
     (bypass (start_options example_findOne (example_opts None)))"
    by (simp add: path_prefix_def plain_request_def start_options_def example_opts_def)
  have c: "list_ex (\<lambda>p. path_prefix p (pathname (plain_request ''/assets/app.css'')))
     (control (start_options example_findOne (example_opts None)))"
    by (simp add: path_prefix_def plain_request_def start_options_def example_opts_def)
  from h c bypass_wins_over_control [where matches = path_prefix
      and req = "plain_request ''/assets/app.css''" and findOne = example_findOne
      and os = "example_opts None" and G = node_globals and protocol = example_protocol]
  show ?thesis by simp
qed

section \<open>A controlled request without a key\<close>

text \<open>
  C6.  For a request that the classifier calls \<open>Controlled\<close>, that carries no key and that
  arrives not whitelisted: when \<^verbatim>\<open>createrequest\<close> succeeds, the handler calls
  \<^verbatim>\<open>createrequest\<close> with the request as it arrived (so with its \<^verbatim>\<open>originalUrl\<close>) and then
  \<^verbatim>\<open>requestauth\<close>, Tequila's redirect, with what \<^verbatim>\<open>createrequest\<close> returned; when it fails, the
  handler passes the error to \<^verbatim>\<open>next\<close> and \<^verbatim>\<open>requestauth\<close> is not called; in both cases
  \<^verbatim>\<open>fetchattributes\<close> is not called.
\<close>

theorem controlled_without_key:
  assumes "classify_spec matches (pathname req)
             (bypass (start_options findOne os)) (control (start_options findOne os)) = Controlled"
    and "\<not> req_has_key req"
    and "\<not> req_whitelisted req"
  shows "(\<forall>results. createrequest protocol req = Inr results \<longrightarrow>
            httpHandler (start G matches findOne protocol os) req
              = ([CreateRequest req, RequestAuth results], Redirected results))
       \<and> (\<forall>err. createrequest protocol req = Inl err \<longrightarrow>
            httpHandler (start G matches findOne protocol os) req
              = ([CreateRequest req], DownstreamError err req))
       \<and> (\<forall>key. FetchAttributes key
              \<notin> set (fst (httpHandler (start G matches findOne protocol os) req)))"
proof -
  from assms(1) have nb: "\<not> list_ex (\<lambda>p. matches p (pathname req)) (bypass (start_options findOne os))"
    and c: "list_ex (\<lambda>p. matches p (pathname req)) (control (start_options findOne os))"
    by (simp_all add: classify_spec_Controlled)
  have run: "httpHandler (start G matches findOne protocol os) req =
     (case createrequest protocol req of
        Inl err \<Rightarrow> ([CreateRequest req], DownstreamError err req)
      | Inr results \<Rightarrow> ([CreateRequest req, RequestAuth results], Redirected results))"
    using nb c assms(2,3)
    by (simp add: httpHandler_start dispatch_layers_no_bypass dispatch_control_nokey)
  show ?thesis
    by (simp add: run split: sum.splits)
qed

theorem controlled_without_key_witness:
  "classify_spec path_prefix (pathname (plain_request ''/dashboard''))
     (bypass (start_options example_findOne (example_opts None)))
     (control (start_options example_findOne (example_opts None))) = Controlled
   \<and> \<not> req_has_key (plain_request ''/dashboard'')
   \<and> \<not> req_whitelisted (plain_request ''/dashboard'')
   \<and> httpHandler (start node_globals path_prefix example_findOne example_protocol (example_opts None))
        (plain_request ''/dashboard'')
       = ([CreateRequest (plain_request ''/dashboard''),
           RequestAuth (JObj [(''key'', JStr ''request-1'')])],
          Redirected (JObj [(''key'', JStr ''request-1'')]))
   \<and> httpHandler (start node_globals path_prefix example_findOne unreachable_protocol (example_opts None))
        (plain_request ''/dashboard'')
       = ([CreateRequest (plain_request ''/dashboard'')],
          DownstreamError (JStr ''ECONNREFUSED'') (plain_request ''/dashboard''))"
proof -
  have c: "classify_spec path_prefix (pathname (plain_request ''/dashboard''))
     (bypass (start_options example_findOne (example_opts None)))
     (control (start_options example_findOne (example_opts None))) = Controlled"
    by (simp add: classify_spec_def path_prefix_def plain_request_def start_options_def
          example_opts_def)
  have k: "\<not> req_has_key (plain_request ''/dashboard'')"
    by (simp add: req_has_key_def plain_request_def js_and_def)
  have w: "\<not> req_whitelisted (plain_request ''/dashboard'')"
    by (simp add: req_whitelisted_def plain_request_def js_and_def)
  have ok: "createrequest example_protocol (plain_request ''/dashboard'')
              = Inr (JObj [(''key'', JStr ''request-1'')])"
    by (simp add: example_protocol_def)
  have ko: "createrequest unreachable_protocol (plain_request ''/dashboard'')
              = Inl (JStr ''ECONNREFUSED'')"
    by (simp add: unreachable_protocol_def)
  from c k w ok ko
    controlled_without_key [where matches = path_prefix
      and req = "plain_request ''/dashboard''" and findOne = example_findOne
      and os = "example_opts None" and G = node_globals and protocol = example_protocol]
    controlled_without_key [where matches = path_prefix
      and req = "plain_request ''/dashboard''" and findOne = example_findOne
      and os = "example_opts None" and G = node_globals and protocol = unreachable_protocol]
  show ?thesis by simp
qed

section \<open>A failed attribute fetch\<close>

text \<open>
  C7.  A login call that presents a ticket, and whose \<^verbatim>\<open>fetchattributes\<close> call fails with
  \<^verbatim>\<open>e\<close>, completes by returning \<^verbatim>\<open>{error: e}\<close>: the handler returns, it does not throw.
  The handler keeps no state, so the next request meets the same handlers.
\<close>

theorem fetch_failure_is_login_error:
  assumes "truthy (tequilaKey args)"
    and "fetchattributes protocol (tequilaKey args) = Inl e"
  shows "login (start G matches findOne protocol os) args
           = ([FetchAttributes (tequilaKey args)], Returns (LoginError e))"
  using assms by (simp add: login_start loginHandler_def)

theorem fetch_failure_is_login_error_witness:
  "truthy (tequilaKey example_login)
   \<and> fetchattributes unreachable_protocol (tequilaKey example_login) = Inl (JStr ''ECONNREFUSED'')
   \<and> login (start node_globals path_prefix example_findOne unreachable_protocol (example_opts None))
        example_login
       = ([FetchAttributes (JStr ''abc123'')], Returns (LoginError (JStr ''ECONNREFUSED'')))"
proof -
  have t: "truthy (tequilaKey example_login)"
    by (simp add: example_login_def)
  have f: "fetchattributes unreachable_protocol (tequilaKey example_login)
             = Inl (JStr ''ECONNREFUSED'')"
    by (simp add: unreachable_protocol_def)
  from t f fetch_failure_is_login_error [where args = example_login
      and protocol = unreachable_protocol and e = "JStr ''ECONNREFUSED''" and G = node_globals
      and matches = path_prefix and findOne = example_findOne and os = "example_opts None"]
  show ?thesis by (simp add: example_login_def)
qed


section \<open>Where the ticket is redeemed\<close>

text \<open>
  C2.  The handler on the HTTP pipeline never calls \<^verbatim>\<open>fetchattributes\<close>, whatever the request
  and the pattern lists.  A \<open>Controlled\<close> request with a key is handed on by \<^verbatim>\<open>next()\<close> with no
  remote call at all; a \<open>Controlled\<close> request without one leads to \<^verbatim>\<open>createrequest\<close> alone or
  to \<^verbatim>\<open>createrequest\<close> and the redirect.  A login call that presents a ticket calls
  \<^verbatim>\<open>fetchattributes\<close> exactly once, with that ticket, and makes no other remote call; a
  login call without a ticket makes none.  A key counts as present when it is truthy, which
  is the source's own test: an empty \<^verbatim>\<open>key\<close> is treated as no key.
\<close>

theorem fetchattributes_only_from_login:
  "(\<forall>key. FetchAttributes key
       \<notin> set (fst (httpHandler (start G matches findOne protocol os) req)))
   \<and> (classify_spec matches (pathname req)
          (bypass (start_options findOne os)) (control (start_options findOne os)) = Controlled
        \<and> req_has_key req
        \<longrightarrow> httpHandler (start G matches findOne protocol os) req = ([], Downstream req))
   \<and> (classify_spec matches (pathname req)
          (bypass (start_options findOne os)) (control (start_options findOne os)) = Controlled
        \<and> \<not> req_has_key req \<and> \<not> req_whitelisted req
        \<longrightarrow> fst (httpHandler (start G matches findOne protocol os) req) = [CreateRequest req]
            \<or> (\<exists>results. fst (httpHandler (start G matches findOne protocol os) req)
                   = [CreateRequest req, RequestAuth results]))
   \<and> (truthy (tequilaKey args)
        \<longrightarrow> fst (login (start G matches findOne protocol os) args)
              = [FetchAttributes (tequilaKey args)])
   \<and> (\<not> truthy (tequilaKey args)
        \<longrightarrow> fst (login (start G matches findOne protocol os) args) = [])"
proof -
  let ?options = "start_options findOne os"
  let ?http = "httpHandler (start G matches findOne protocol os) req"
  have http: "?http = dispatch matches protocol (layers ?options) req"
    by (simp add: httpHandler_start)
  have never: "\<forall>key. FetchAttributes key \<notin> set (fst ?http)"
    by (simp add: http dispatch_no_fetch)
  have with_key: "?http = ([], Downstream req)"
    if "classify_spec matches (pathname req) (bypass ?options) (control ?options) = Controlled"
      and "req_has_key req"
    using that
    by (simp add: http classify_spec_Controlled dispatch_layers_no_bypass dispatch_control_key)
  have without_key: "fst ?http = [CreateRequest req]
      \<or> (\<exists>results. fst ?http = [CreateRequest req, RequestAuth results])"
    if "classify_spec matches (pathname req) (bypass ?options) (control ?options) = Controlled"
      and "\<not> req_has_key req" and "\<not> req_whitelisted req"
    using that
    by (simp add: http classify_spec_Controlled dispatch_layers_no_bypass dispatch_control_nokey
          split: sum.splits)
  have once: "fst (login (start G matches findOne protocol os) args)
      = [FetchAttributes (tequilaKey args)]" if "truthy (tequilaKey args)"
    using that by (simp add: login_start loginHandler_def Let_def split: sum.splits)
  have none: "fst (login (start G matches findOne protocol os) args) = []"
    if "\<not> truthy (tequilaKey args)"
    using that by (simp add: login_start loginHandler_def)
  from never with_key without_key once none show ?thesis by blast
qed

theorem fetchattributes_only_from_login_witness:
  "classify_spec path_prefix (pathname (returning_request ''/dashboard'' ''abc123''))
      (bypass (start_options example_findOne (example_opts None)))
      (control (start_options example_findOne (example_opts None))) = Controlled
   \<and> req_has_key (returning_request ''/dashboard'' ''abc123'')
   \<and> httpHandler (start node_globals path_prefix example_findOne example_protocol (example_opts None))
        (returning_request ''/dashboard'' ''abc123'')
       = ([], Downstream (returning_request ''/dashboard'' ''abc123''))
   \<and> classify_spec path_prefix (pathname (plain_request ''/dashboard''))
      (bypass (start_options example_findOne (example_opts None)))
      (control (start_options example_findOne (example_opts None))) = Controlled
   \<and> \<not> req_has_key (plain_request ''/dashboard'')
   \<and> \<not> req_whitelisted (plain_request ''/dashboard'')
   \<and> fst (httpHandler (start node_globals path_prefix example_findOne example_protocol (example_opts None))
        (plain_request ''/dashboard''))
       = [CreateRequest (plain_request ''/dashboard''),
          RequestAuth (JObj [(''key'', JStr ''request-1'')])]
   \<and> truthy (tequilaKey example_login)
   \<and> fst (login (start node_globals path_prefix example_findOne example_protocol (example_opts None))
        example_login) = [FetchAttributes (JStr ''abc123'')]
   \<and> \<not> truthy (tequilaKey \<lparr>tequilaKey = Undefined\<rparr>)
   \<and> fst (login (start node_globals path_prefix example_findOne example_protocol (example_opts None))
        \<lparr>tequilaKey = Undefined\<rparr>) = []"
proof -
  have c1: "classify_spec path_prefix (pathname (returning_request ''/dashboard'' ''abc123''))
      (bypass (start_options example_findOne (example_opts None)))
      (control (start_options example_findOne (example_opts None))) = Controlled"
    by (simp add: classify_spec_def path_prefix_def returning_request_def start_options_def
          example_opts_def)
  have k1: "req_has_key (returning_request ''/dashboard'' ''abc123'')"
    by (simp add: req_has_key_def returning_request_def js_and_def)
  have c2: "classify_spec path_prefix (pathname (plain_request ''/dashboard''))
      (bypass (start_options example_findOne (example_opts None)))
      (control (start_options example_findOne (example_opts None))) = Controlled"
    by (simp add: classify_spec_def path_prefix_def plain_request_def start_options_def
          example_opts_def)
  have k2: "\<not> req_has_key (plain_request ''/dashboard'')"
    by (simp add: req_has_key_def plain_request_def js_and_def)
  have w2: "\<not> req_whitelisted (plain_request ''/dashboard'')"
    by (simp add: req_whitelisted_def plain_request_def js_and_def)
  have t: "truthy (tequilaKey example_login)"
    by (simp add: example_login_def)
  have cr: "fst (httpHandler (start node_globals path_prefix example_findOne example_protocol (example_opts None))
        (plain_request ''/dashboard''))
       = [CreateRequest (plain_request ''/dashboard''),
          RequestAuth (JObj [(''key'', JStr ''request-1'')])]"
    by (simp add: httpHandler_start layers_def start_options_def example_opts_def path_prefix_def
          plain_request_def req_whitelisted_def req_has_key_def js_and_def tequilaRedirectHTTP_def
          example_protocol_def)
  from c1 k1 c2 k2 w2 t cr
    fetchattributes_only_from_login [where matches = path_prefix
      and req = "returning_request ''/dashboard'' ''abc123''" and findOne = example_findOne
      and os = "example_opts None" and G = node_globals and protocol = example_protocol
      and args = example_login]
    fetchattributes_only_from_login [where matches = path_prefix
      and req = "plain_request ''/dashboard''" and findOne = example_findOne
      and os = "example_opts None" and G = node_globals and protocol = example_protocol
      and args = "\<lparr>tequilaKey = Undefined\<rparr>"]
  show ?thesis by (simp add: example_login_def)
qed

section \<open>Exceptions of the identity resolution\<close>

text \<open>
  C8, evaluated.  The ticket is presented, \<^verbatim>\<open>fetchattributes\<close> succeeds, and the configured
  \<^verbatim>\<open>getUserId\<close> fails with \<^verbatim>\<open>database down\<close>, by throwing when called or by rejecting its
  promise.  Under Node's global object the handler returns \<^verbatim>\<open>{error: ReferenceError}\<close> in
  both cases, which is not the resolver's exception: line 117 throws before
  \<^verbatim>\<open>getIdFromResults\<close> is entered, and the configured function is never called.  Where the
  two names are bound, the \<^verbatim>\<open>catch\<close> of line 124 does return the resolver's exception as
  \<^verbatim>\<open>{error: e}\<close>.  In every case the handler returns and nothing is thrown out of it.
\<close>

theorem login_with_failing_resolver:
  "getUserId (start_options example_findOne
       (example_opts (Some (constant_resolver (Threw (JStr ''database down''))))))
     example_attributes = Threw (JStr ''database down'')
   \<and> login (start node_globals path_prefix example_findOne example_protocol
              (example_opts (Some (constant_resolver (Threw (JStr ''database down''))))))
        example_login
      = ([FetchAttributes (JStr ''abc123'')], Returns (LoginError (ReferenceError ''results'')))
   \<and> getUserId (start_options example_findOne
       (example_opts (Some (constant_resolver (Rejected (JStr ''database down''))))))
     example_attributes = Rejected (JStr ''database down'')
   \<and> login (start node_globals path_prefix example_findOne example_protocol
              (example_opts (Some (constant_resolver (Rejected (JStr ''database down''))))))
        example_login
      = ([FetchAttributes (JStr ''abc123'')], Returns (LoginError (ReferenceError ''results'')))
   \<and> ReferenceError ''results'' \<noteq> JStr ''database down''
   \<and> login (start (bound_globals example_attributes (start_options example_findOne
                 (example_opts (Some (constant_resolver (Threw (JStr ''database down'')))))))
              path_prefix example_findOne example_protocol
              (example_opts (Some (constant_resolver (Threw (JStr ''database down''))))))
        example_login
      = ([FetchAttributes (JStr ''abc123'')], Returns (LoginError (JStr ''database down'')))
   \<and> login (start (bound_globals example_attributes (start_options example_findOne
                 (example_opts (Some (constant_resolver (Rejected (JStr ''database down'')))))))
              path_prefix example_findOne example_protocol
              (example_opts (Some (constant_resolver (Rejected (JStr ''database down''))))))
        example_login
      = ([FetchAttributes (JStr ''abc123'')], Returns (LoginError (JStr ''database down'')))"
  by (simp add: ex_defs)


section \<open>What is attached to the request\<close>

text \<open>
  C9, as amended.  The only thing the handler attaches to a request is the whitelisting: a
  request whose path matches a bypass pattern is handed on with
  \<^verbatim>\<open>req.tequila = {whitelisted: true}\<close>; a request whose path matches no bypass pattern, be
  it \<open>Controlled\<close> or \<open>Unclassified\<close>, is handed on, with or without an error, exactly as it
  arrived, or is answered by the redirect.
\<close>

theorem only_whitelisting_is_attached:
  assumes "httpHandler (start G matches findOne protocol os) req = (calls, out)"
  shows "(list_ex (\<lambda>p. matches p (pathname req)) (bypass (start_options findOne os))
            \<longrightarrow> out = Downstream (req\<lparr>tequila := whitelisted_ctx\<rparr>))
       \<and> (\<not> list_ex (\<lambda>p. matches p (pathname req)) (bypass (start_options findOne os))
            \<longrightarrow> out = Downstream req \<or> (\<exists>e. out = DownstreamError e req)
                 \<or> (\<exists>results. out = Redirected results))"
proof -
  let ?options = "start_options findOne os"
  from assms have run: "dispatch matches protocol (layers ?options) req = (calls, out)"
    by (simp add: httpHandler_start)
  have "out = Downstream (req\<lparr>tequila := whitelisted_ctx\<rparr>)"
    if "list_ex (\<lambda>p. matches p (pathname req)) (bypass ?options)"
    using run that by (simp add: dispatch_layers_bypass)
  moreover
  have "out = Downstream req \<or> (\<exists>e. out = DownstreamError e req)
          \<or> (\<exists>results. out = Redirected results)"
    if "\<not> list_ex (\<lambda>p. matches p (pathname req)) (bypass ?options)"
    using run that dispatch_control_handed_on [of matches protocol "control ?options" req calls out]
    by (simp add: dispatch_layers_no_bypass)
  ultimately show ?thesis by blast
qed

theorem only_whitelisting_is_attached_witness:
  "httpHandler (start node_globals path_prefix example_findOne example_protocol narrow_opts)
       (plain_request ''/assets/app.css'')
     = ([], Downstream ((plain_request ''/assets/app.css'')\<lparr>tequila := whitelisted_ctx\<rparr>))
   \<and> list_ex (\<lambda>p. path_prefix p (pathname (plain_request ''/assets/app.css'')))
        (bypass (start_options example_findOne narrow_opts))
   \<and> httpHandler (start node_globals path_prefix example_findOne example_protocol narrow_opts)
       (returning_request ''/app/home'' ''abc123'')
     = ([], Downstream (returning_request ''/app/home'' ''abc123''))
   \<and> \<not> list_ex (\<lambda>p. path_prefix p (pathname (returning_request ''/app/home'' ''abc123'')))
        (bypass (start_options example_findOne narrow_opts))"
proof -
  have r1: "httpHandler (start node_globals path_prefix example_findOne example_protocol narrow_opts)
       (plain_request ''/assets/app.css'')
     = ([], Downstream ((plain_request ''/assets/app.css'')\<lparr>tequila := whitelisted_ctx\<rparr>))"
    by (simp add: httpHandler_start layers_def start_options_def narrow_opts_def path_prefix_def
          plain_request_def req_whitelisted_def whitelisted_ctx_def js_and_def)
  have b1: "list_ex (\<lambda>p. path_prefix p (pathname (plain_request ''/assets/app.css'')))
        (bypass (start_options example_findOne narrow_opts))"
    by (simp add: start_options_def narrow_opts_def path_prefix_def plain_request_def)
  have r2: "httpHandler (start node_globals path_prefix example_findOne example_protocol narrow_opts)
       (returning_request ''/app/home'' ''abc123'')
     = ([], Downstream (returning_request ''/app/home'' ''abc123''))"
    by (simp add: httpHandler_start layers_def start_options_def narrow_opts_def path_prefix_def
          returning_request_def req_whitelisted_def req_has_key_def js_and_def
          tequilaRedirectHTTP_def)
  have b2: "\<not> list_ex (\<lambda>p. path_prefix p (pathname (returning_request ''/app/home'' ''abc123'')))
        (bypass (start_options example_findOne narrow_opts))"
    by (simp add: start_options_def narrow_opts_def path_prefix_def returning_request_def)
  from r1 b1 r2 b2
    only_whitelisting_is_attached [OF r1] only_whitelisting_is_attached [OF r2]
  show ?thesis by simp
qed

text \<open>
  C9 as stated fails: a \<open>Controlled\<close> request that carries a key and an \<open>Unclassified\<close>
  request are both handed on unchanged, with no \<^verbatim>\<open>tequila\<close> property at all, so nothing
  downstream can read the one outcome from the other off the request.
\<close>

theorem classification_attached_counterexample:
  "classify_spec path_prefix (pathname (returning_request ''/app/home'' ''abc123''))
      (bypass (start_options example_findOne narrow_opts))
      (control (start_options example_findOne narrow_opts)) = Controlled
   \<and> classify_spec path_prefix (pathname (plain_request ''/public/logo.png''))
      (bypass (start_options example_findOne narrow_opts))
      (control (start_options example_findOne narrow_opts)) = Unclassified
   \<and> httpHandler (start node_globals path_prefix example_findOne example_protocol narrow_opts)
       (returning_request ''/app/home'' ''abc123'')
     = ([], Downstream (returning_request ''/app/home'' ''abc123''))
   \<and> httpHandler (start node_globals path_prefix example_findOne example_protocol narrow_opts)
       (plain_request ''/public/logo.png'')
     = ([], Downstream (plain_request ''/public/logo.png''))
   \<and> tequila (returning_request ''/app/home'' ''abc123'') = Undefined
   \<and> tequila (plain_request ''/public/logo.png'') = Undefined"
  by (simp add: classify_spec_def httpHandler_start layers_def start_options_def narrow_opts_def
        path_prefix_def returning_request_def plain_request_def req_whitelisted_def
        req_has_key_def js_and_def tequilaRedirectHTTP_def)

section \<open>The login call under Node's global object\<close>

text \<open>
  C1, evaluated.  The ticket is presented, \<^verbatim>\<open>fetchattributes\<close> succeeds, and the configured
  \<^verbatim>\<open>getUserId\<close> returns a record whose \<^verbatim>\<open>_id\<close> is \<^verbatim>\<open>u1\<close>, from which lines 147 and 148 would
  take \<^verbatim>\<open>u1\<close>.  The handler returns \<^verbatim>\<open>{error: ReferenceError}\<close>: line 117 reads \<^verbatim>\<open>results\<close>
  outside the block that declares it.
\<close>

theorem login_with_record_resolver:
  "getUserId (start_options example_findOne (example_opts (Some (constant_resolver (Returned example_user)))))
      example_attributes = Returned example_user
   \<and> idOfLoggedInUser example_user = Returns (JStr ''u1'')
   \<and> login (start node_globals path_prefix example_findOne example_protocol
              (example_opts (Some (constant_resolver (Returned example_user)))))
        example_login
      = ([FetchAttributes (JStr ''abc123'')], Returns (LoginError (ReferenceError ''results'')))"
  by (simp add: ex_defs)

text \<open>
  C10, evaluated.  With \<^verbatim>\<open>getUserId\<close> left out of the options, \<^verbatim>\<open>start\<close> installs the default,
  which finds \<^verbatim>\<open>alice\<close>'s document (with \<^verbatim>\<open>_id\<close> \<^verbatim>\<open>u1\<close>) and finds nothing for an unknown name.
  The login call all the same returns \<^verbatim>\<open>{error: ReferenceError}\<close>, for the reason above.
\<close>

theorem login_with_default_resolver:
  "getUserId (start_options example_findOne (example_opts None)) = default_getUserId example_findOne
   \<and> default_getUserId example_findOne example_attributes = Returned example_user
   \<and> jsprop example_user ''_id'' = JStr ''u1''
   \<and> default_getUserId example_findOne (JObj [(''name'', JStr ''mallory'')]) = Returned Undefined
   \<and> login (start node_globals path_prefix example_findOne example_protocol (example_opts None))
        example_login
      = ([FetchAttributes (JStr ''abc123'')], Returns (LoginError (ReferenceError ''results'')))"
  by (simp add: ex_defs)

text \<open>
  C3, evaluated.  The resolution yields nothing.  Under Node's global object the handler
  returns \<^verbatim>\<open>{error: ReferenceError}\<close>.  Where the two names are bound, it returns
  \<^verbatim>\<open>Meteor.Error("Tequila:user-unknown")\<close>, which has none of the attributes, while the
  unused helper \<^verbatim>\<open>TequilaUnknownUserError\<close> would have copied them onto the error.
\<close>

theorem login_with_empty_resolution:
  "login (start node_globals path_prefix example_findOne example_protocol
              (example_opts (Some (constant_resolver (Returned Undefined)))))
        example_login
      = ([FetchAttributes (JStr ''abc123'')], Returns (LoginError (ReferenceError ''results'')))
   \<and> login (start (bound_globals example_attributes (start_options example_findOne
                 (example_opts (Some (constant_resolver (Returned Undefined))))))
              path_prefix example_findOne example_protocol
              (example_opts (Some (constant_resolver (Returned Undefined)))))
        example_login
      = ([FetchAttributes (JStr ''abc123'')],
         Returns (LoginError (MeteorError ''Tequila:user-unknown'')))
   \<and> jsprop (MeteorError ''Tequila:user-unknown'') ''name'' = Undefined
   \<and> jsprop (TequilaUnknownUserError example_attributes) ''name'' = JStr ''alice''"
  by (simp add: ex_defs)

text \<open>
  C4, evaluated.  The resolution yields a cursor whose first element is \<^verbatim>\<open>u1\<close> with no
  error.  The body of \<^verbatim>\<open>getIdFromResults\<close> gives \<^verbatim>\<open>undefined\<close>, the \<^verbatim>\<open>return value\<close> of line 144
  leaving only the callback; the iteration goes on past the first element, as the error
  of a second one shows.  The handler returns \<^verbatim>\<open>{error: ReferenceError}\<close> under Node's
  global object and the unknown-user error where the two names are bound.
\<close>

theorem login_with_cursor_resolution:
  "idOfLoggedInUser (JCursor [(Undefined, JStr ''u1'')]) = Returns Undefined
   \<and> forEach [(Undefined, JStr ''u1''), (JStr ''second fails'', Undefined)]
        = Throws (JStr ''second fails'')
   \<and> login (start node_globals path_prefix example_findOne example_protocol
              (example_opts (Some (constant_resolver (Returned (JCursor [(Undefined, JStr ''u1'')]))))))
        example_login
      = ([FetchAttributes (JStr ''abc123'')], Returns (LoginError (ReferenceError ''results'')))
   \<and> login (start (bound_globals example_attributes (start_options example_findOne
                 (example_opts (Some (constant_resolver (Returned (JCursor [(Undefined, JStr ''u1'')])))))))
              path_prefix example_findOne example_protocol
              (example_opts (Some (constant_resolver (Returned (JCursor [(Undefined, JStr ''u1'')]))))))
        example_login
      = ([FetchAttributes (JStr ''abc123'')],
         Returns (LoginError (MeteorError ''Tequila:user-unknown'')))"
  by (simp add: ex_defs)

end
